theory Spec2Isabelle
  imports Complex_Main
begin

section \<open>Python values, exceptions and the store of arrays\<close>

text \<open>
  The module \<^verbatim>\<open>rbfopt_user_black_box.py\<close> defines one class,
  \<^verbatim>\<open>RbfoptUserBlackBox\<close>, that wraps user data (a dimension, three arrays and one
  or two callables) behind the methods an optimizer queries. It derives from
  \<^verbatim>\<open>RbfoptBlackBox\<close> (\<^verbatim>\<open>rbfopt_black_box.py\<close>), whose methods all have the body
  \<^verbatim>\<open>pass\<close>; the adapter overrides the four getters and \<^verbatim>\<open>evaluate\<close>, and names
  its optional operations \<^verbatim>\<open>evaluate_fast\<close> and \<^verbatim>\<open>has_evaluate_fast\<close>. The
  model is of Python 3, where the base class's \<^verbatim>\<open>__metaclass__\<close> attribute has no
  effect and the adapter can be instantiated.

  The arrays are mutable Python objects that the caller and the adapter both hold
  references to, so they live in an explicit store: a list of arrays in which an
  address is an index. The docstring types the bound arrays as
  \<^verbatim>\<open>numpy.ndarray[float]\<close> and the index array as \<^verbatim>\<open>numpy.ndarray[int]\<close>;
  the adapter does no arithmetic on the elements, so floats are modelled as reals.
\<close>

datatype array = Floats "real list" | Ints "int list"

text \<open>Python's \<^verbatim>\<open>len\<close> on a one-dimensional array.\<close>

fun len :: "array \<Rightarrow> nat" where
  "len (Floats xs) = length xs"
| "len (Ints ks) = length ks"

type_synonym addr = nat
type_synonym store = "array list"

text \<open>
  The exceptions of the module: a failed \<^verbatim>\<open>assert\<close> raises
  \<^verbatim>\<open>AssertionError\<close> (assertions are enabled, which is Python's default),
  \<^verbatim>\<open>evaluate_fast\<close> raises \<^verbatim>\<open>NotImplementedError\<close> with a message, and a
  user callable may raise anything (\<open>Raised\<close>).
\<close>

datatype error = AssertionError | NotImplementedError string | Raised string

text \<open>
  \<^verbatim>\<open>numpy.array(obj)\<close> (library code, default \<^verbatim>\<open>copy=True\<close>): allocates a new
  array holding the elements of \<open>obj\<close> and returns a reference to it; \<open>obj\<close> itself
  is left alone.
\<close>

definition np_array :: "addr \<Rightarrow> store \<Rightarrow> addr \<times> store" where
  "np_array a s = (length s, s @ [s ! a])"

section \<open>The class RbfoptUserBlackBox\<close>

text \<open>
  The attributes assigned by the constructor, in its order. The last two hold
  references to function objects; a function object is immutable, so a reference
  to one is a key (\<open>fref\<close>) into a table of the user's functions.
\<close>

type_synonym fref = nat

record RbfoptUserBlackBox =
  dimension :: int
  var_lower :: addr
  var_upper :: addr
  integer_vars :: addr
  obj_funct :: fref
  obj_funct_fast :: "fref option"

text \<open>
  What user code can reach, and change, while it runs: the adapter object, whose
  attributes are plain public attributes, and every array.
\<close>

type_synonym state = "RbfoptUserBlackBox \<times> store"

text \<open>
  A user callable receives a reference to the point; it returns a value or raises,
  and leaves the state as it likes. The adapter never inspects the value, so its
  type is a parameter.
\<close>

type_synonym 'v callable = "addr \<Rightarrow> state \<Rightarrow> (error + 'v) \<times> state"

text \<open>
  \<^verbatim>\<open>__init__(self, dimension, var_lower, var_upper, integer_vars, obj_funct,
  obj_funct_fast=None)\<close>: three assertions, then six assignments, three of them of
  fresh copies made by \<^verbatim>\<open>np.array\<close>. A failed assertion leaves the store as it
  was and produces no object.
\<close>

definition init ::
  "int \<Rightarrow> addr \<Rightarrow> addr \<Rightarrow> addr \<Rightarrow> fref \<Rightarrow> fref option \<Rightarrow> store
    \<Rightarrow> (error + RbfoptUserBlackBox) \<times> store" where
  "init dimn lower upper ivars f ffast s =
     (if int (len (s ! lower)) \<noteq> dimn then (Inl AssertionError, s)
      else if int (len (s ! upper)) \<noteq> dimn then (Inl AssertionError, s)
      else if \<not> int (len (s ! ivars)) \<le> dimn then (Inl AssertionError, s)
      else
        let (a1, s1) = np_array lower s;
            (a2, s2) = np_array upper s1;
            (a3, s3) = np_array ivars s2
        in (Inr \<lparr>dimension = dimn, var_lower = a1, var_upper = a2, integer_vars = a3,
                 obj_funct = f, obj_funct_fast = ffast\<rparr>, s3))"

definition get_dimension :: "RbfoptUserBlackBox \<Rightarrow> int" where
  "get_dimension self = dimension self"

definition get_var_lower :: "RbfoptUserBlackBox \<Rightarrow> addr" where
  "get_var_lower self = var_lower self"

definition get_var_upper :: "RbfoptUserBlackBox \<Rightarrow> addr" where
  "get_var_upper self = var_upper self"

definition get_integer_vars :: "RbfoptUserBlackBox \<Rightarrow> addr" where
  "get_integer_vars self = integer_vars self"

text \<open>
  \<^verbatim>\<open>evaluate(self, x)\<close>: the length assertion, then the call of the function that
  \<^verbatim>\<open>self.obj_funct\<close> refers to (\<open>F\<close> is the table of the user's exact
  evaluators). The state after the call is the one the function leaves.
\<close>

definition evaluate ::
  "(fref \<Rightarrow> 'v callable) \<Rightarrow> RbfoptUserBlackBox \<Rightarrow> addr \<Rightarrow> store \<Rightarrow> (error + 'v) \<times> state" where
  "evaluate F self x s =
     (if int (len (s ! x)) \<noteq> dimension self then (Inl AssertionError, self, s)
      else F (obj_funct self) x (self, s))"

text \<open>
  \<^verbatim>\<open>evaluate_fast(self, x)\<close>: the length assertion comes first, then the test of
  \<^verbatim>\<open>obj_funct_fast\<close> against \<^verbatim>\<open>None\<close> (\<open>G\<close> is the table of the user's fast
  evaluators).
\<close>

definition evaluate_fast ::
  "(fref \<Rightarrow> 'n callable) \<Rightarrow> RbfoptUserBlackBox \<Rightarrow> addr \<Rightarrow> store \<Rightarrow> (error + 'n) \<times> state" where
  "evaluate_fast G self x s =
     (if int (len (s ! x)) \<noteq> dimension self then (Inl AssertionError, self, s)
      else case obj_funct_fast self of
             None \<Rightarrow> (Inl (NotImplementedError ''evaluate_fast not available''), self, s)
           | Some g \<Rightarrow> G g x (self, s))"

definition has_evaluate_fast :: "RbfoptUserBlackBox \<Rightarrow> bool" where
  "has_evaluate_fast self = (obj_funct_fast self \<noteq> None)"

section \<open>Clients: sequences of method calls\<close>

text \<open>
  A client holds the object and calls its seven methods in any order; a call that
  raises is caught by the client, which goes on. \<open>call\<close> returns what the method
  returned or raised and the state after it: for the two evaluation methods that
  is the state their result carries, for the five others, whose bodies are one
  \<^verbatim>\<open>return\<close> of an attribute, the state before.
\<close>

datatype request =
    GetDimension | GetVarLower | GetVarUpper | GetIntegerVars
  | Evaluate addr | EvaluateFast addr | HasEvaluateFast

datatype ('v, 'n) reply = RInt int | RRef addr | RBool bool | RExact 'v | RFast 'n

fun call ::
  "(fref \<Rightarrow> 'v callable) \<Rightarrow> (fref \<Rightarrow> 'n callable) \<Rightarrow> request \<Rightarrow> state
    \<Rightarrow> (error + ('v, 'n) reply) \<times> state" where
  "call F G GetDimension (self, s) = (Inr (RInt (get_dimension self)), self, s)"
| "call F G GetVarLower (self, s) = (Inr (RRef (get_var_lower self)), self, s)"
| "call F G GetVarUpper (self, s) = (Inr (RRef (get_var_upper self)), self, s)"
| "call F G GetIntegerVars (self, s) = (Inr (RRef (get_integer_vars self)), self, s)"
| "call F G (Evaluate x) (self, s) =
     (case evaluate F self x s of (r, \<tau>) \<Rightarrow> (map_sum id RExact r, \<tau>))"
| "call F G (EvaluateFast x) (self, s) =
     (case evaluate_fast G self x s of (r, \<tau>) \<Rightarrow> (map_sum id RFast r, \<tau>))"
| "call F G HasEvaluateFast (self, s) = (Inr (RBool (has_evaluate_fast self)), self, s)"

fun run ::
  "(fref \<Rightarrow> 'v callable) \<Rightarrow> (fref \<Rightarrow> 'n callable) \<Rightarrow> request list \<Rightarrow> state
    \<Rightarrow> (error + ('v, 'n) reply) list \<times> state" where
  "run F G [] \<sigma> = ([], \<sigma>)"
| "run F G (q # qs) \<sigma> =
     (case call F G q \<sigma> of
        (r, \<tau>) \<Rightarrow> (case run F G qs \<tau> of (rs, \<tau>') \<Rightarrow> (r # rs, \<tau>')))"

section \<open>Scenarios\<close>

text \<open>
  The caller's store before construction: bound arrays for a two-dimensional
  problem on the box from \<open>-1\<close> to \<open>1\<close>, an empty array of integer indices, two
  points of length two, and arrays of length one, zero and five.
\<close>

definition scenario_store :: store where
  "scenario_store =
     [Floats [-1, -1], Floats [1, 1], Ints [], Floats [1/2, 1/2], Floats [1/5, 3/10],
      Floats [7], Floats [], Floats [0, 0, 0, 0, 0]]"

text \<open>The store after a successful construction from the arrays at three addresses.\<close>

definition after_init :: "addr \<Rightarrow> addr \<Rightarrow> addr \<Rightarrow> store" where
  "after_init lower upper ivars =
     scenario_store @ [scenario_store ! lower, scenario_store ! upper, scenario_store ! ivars]"

text \<open>The object such a construction returns: its three arrays are the new cells.\<close>

definition scenario_bb :: "int \<Rightarrow> fref \<Rightarrow> fref option \<Rightarrow> RbfoptUserBlackBox" where
  "scenario_bb d f g =
     \<lparr>dimension = d, var_lower = 8, var_upper = 9, integer_vars = 10,
      obj_funct = f, obj_funct_fast = g\<rparr>"

text \<open>\<^verbatim>\<open>lambda p: p[0]**2 + p[1]**2\<close>\<close>

definition sphere :: "real callable" where
  "sphere x \<sigma> =
     (case snd \<sigma> ! x of
        Floats (a # b # _) \<Rightarrow> (Inr (a * a + b * b), \<sigma>)
      | Ints (i # j # _) \<Rightarrow> (Inr (of_int (i * i + j * j)), \<sigma>)
      | _ \<Rightarrow> (Inl (Raised ''IndexError''), \<sigma>))"

text \<open>
  A stub that records its argument (it appends a copy of the point to the store)
  and returns the sentinel \<open>42\<close>.
\<close>

definition recorder :: "real callable" where
  "recorder x \<sigma> = (Inr 42, fst \<sigma>, snd \<sigma> @ [snd \<sigma> ! x])"

text \<open>
  An evaluator that holds a reference to the adapter and assigns two of its
  attributes:
  \<^verbatim>\<open>def meddler(p): bb.dimension = 7; bb.obj_funct_fast = None; return 0.0\<close>
\<close>

definition meddler :: "real callable" where
  "meddler x \<sigma> = (Inr 0, (fst \<sigma>)\<lparr>dimension := 7, obj_funct_fast := None\<rparr>, snd \<sigma>)"

text \<open>
  \<^verbatim>\<open>lambda p: (p[0] + p[1], 0.1, -0.1)\<close>: a fast evaluator whose error bounds
  have the wrong signs.
\<close>

definition noisy_sum :: "(real \<times> real \<times> real) callable" where
  "noisy_sum x \<sigma> =
     (case snd \<sigma> ! x of
        Floats (a # b # _) \<Rightarrow> (Inr (a + b, 1/10, - 1/10), \<sigma>)
      | Ints (i # j # _) \<Rightarrow> (Inr (of_int (i + j), 1/10, - 1/10), \<sigma>)
      | _ \<Rightarrow> (Inl (Raised ''IndexError''), \<sigma>))"

text \<open>
  The user's functions: reference \<open>0\<close> is \<open>sphere\<close>, \<open>1\<close> is \<open>recorder\<close> and
  \<open>2\<close> is \<open>meddler\<close> among the exact evaluators; the one fast evaluator is
  \<open>noisy_sum\<close>.
\<close>

definition exact_funs :: "fref \<Rightarrow> real callable" where
  "exact_funs k = (if k = 0 then sphere else if k = 1 then recorder else meddler)"

definition fast_funs :: "fref \<Rightarrow> (real \<times> real \<times> real) callable" where
  "fast_funs k = noisy_sum"

section \<open>Construction\<close>

lemmas scenario_defs = scenario_store_def after_init_def scenario_bb_def

lemma init_scenario_2:
  "init 2 0 1 2 f g scenario_store = (Inr (scenario_bb 2 f g), after_init 0 1 2)"
  by (simp add: init_def np_array_def scenario_defs)

lemma init_scenario_0:
  "init 0 6 6 2 f g scenario_store = (Inr (scenario_bb 0 f g), after_init 6 6 2)"
  by (simp add: init_def np_array_def scenario_defs)

lemma init_scenario_1:
  "init 1 5 5 2 f g scenario_store = (Inr (scenario_bb 1 f g), after_init 5 5 2)"
  by (simp add: init_def np_array_def scenario_defs)

lemma init_scenario_5:
  "init 5 7 7 2 f g scenario_store = (Inr (scenario_bb 5 f g), after_init 7 7 2)"
  by (simp add: init_def np_array_def scenario_defs)

text \<open>What a successful construction stores, attribute by attribute.\<close>

lemma init_ok_fields:
  assumes "init dimn lower upper ivars f ffast s = (Inr self, s')"
  shows "dimension self = dimn"
    and "var_lower self = length s"
    and "var_upper self = Suc (length s)"
    and "integer_vars self = Suc (Suc (length s))"
    and "obj_funct self = f"
    and "obj_funct_fast self = ffast"
  using assms
  by (auto simp: init_def np_array_def split: if_splits)

lemma init_ok_checks:
  assumes "init dimn lower upper ivars f ffast s = (Inr self, s')"
  shows "int (len (s ! lower)) = dimn"
    and "int (len (s ! upper)) = dimn"
    and "int (len (s ! ivars)) \<le> dimn"
  using assms
  by (auto simp: init_def split: if_splits)

lemma init_ok_store:
  assumes "init dimn lower upper ivars f ffast s = (Inr self, s')"
    and "lower < length s" and "upper < length s" and "ivars < length s"
  shows "s' = s @ [s ! lower, s ! upper, s ! ivars]"
  using assms
  by (auto simp: init_def np_array_def nth_append split: if_splits)

text \<open>A length is never negative: a negative dimension is always rejected.\<close>

lemma init_negative_dimension:
  assumes "dimn < 0"
  shows "init dimn lower upper ivars f ffast s = (Inl AssertionError, s)"
  using assms by (simp add: init_def)

section \<open>Evaluation\<close>

text \<open>
  C1: for every adapter constructed with exact evaluator \<open>f\<close> and every point \<open>x\<close>
  whose length is the dimension, \<open>evaluate\<close> is the call of \<open>f\<close> on \<open>x\<close> itself:
  the same result (value or exception) and the same effect on the state, in
  whatever store the call is made. Nothing is cached and nothing is transformed.
\<close>

theorem evaluate_returns_obj_funct:
  assumes "init dimn lower upper ivars f ffast s0 = (Inr self, s1)"
    and "int (len (s ! x)) = dimn"
  shows "evaluate F self x s = F f x (self, s)"
proof -
  have "dimension self = dimn" and "obj_funct self = f"
    using assms(1) by (rule init_ok_fields)+
  with assms(2) show ?thesis
    by (simp add: evaluate_def)
qed

theorem evaluate_returns_obj_funct_witness:
  "init 2 0 1 2 1 None scenario_store = (Inr (scenario_bb 2 1 None), after_init 0 1 2)
   \<and> int (len (after_init 0 1 2 ! 3)) = 2
   \<and> exact_funs 1 = recorder
   \<and> evaluate exact_funs (scenario_bb 2 1 None) 3 (after_init 0 1 2)
       = (Inr 42, scenario_bb 2 1 None, after_init 0 1 2 @ [Floats [1/2, 1/2]])"
proof -
  have c: "init 2 0 1 2 1 None scenario_store = (Inr (scenario_bb 2 1 None), after_init 0 1 2)"
    by (rule init_scenario_2)
  have l: "int (len (after_init 0 1 2 ! 3)) = 2"
    by (simp add: scenario_defs)
  have r: "exact_funs 1 = recorder"
    by (simp add: exact_funs_def)
  have "recorder 3 (scenario_bb 2 1 None, after_init 0 1 2)
          = (Inr 42, scenario_bb 2 1 None, after_init 0 1 2 @ [Floats [1/2, 1/2]])"
    by (simp add: recorder_def scenario_defs)
  with evaluate_returns_obj_funct [OF c l, of exact_funs] c l r show ?thesis
    by (simp only: simp_thms)
qed

text \<open>
  C5: for every adapter, whatever its dimension, \<open>evaluate\<close> on a point whose
  length differs from the dimension raises \<^verbatim>\<open>AssertionError\<close>; the user callable
  is not called (the result does not depend on it and the state is as before), so
  the point is neither truncated nor padded.
\<close>

theorem evaluate_length_mismatch_fails:
  assumes "int (len (s ! x)) \<noteq> get_dimension self"
  shows "evaluate F self x s = (Inl AssertionError, self, s)"
  using assms by (simp add: evaluate_def get_dimension_def)

theorem evaluate_length_mismatch_fails_witness:
  "init 0 6 6 2 1 None scenario_store = (Inr (scenario_bb 0 1 None), after_init 6 6 2)
   \<and> evaluate exact_funs (scenario_bb 0 1 None) 5 (after_init 6 6 2)
       = (Inl AssertionError, scenario_bb 0 1 None, after_init 6 6 2)
   \<and> init 1 5 5 2 1 None scenario_store = (Inr (scenario_bb 1 1 None), after_init 5 5 2)
   \<and> evaluate exact_funs (scenario_bb 1 1 None) 6 (after_init 5 5 2)
       = (Inl AssertionError, scenario_bb 1 1 None, after_init 5 5 2)
   \<and> evaluate exact_funs (scenario_bb 1 1 None) 3 (after_init 5 5 2)
       = (Inl AssertionError, scenario_bb 1 1 None, after_init 5 5 2)
   \<and> init 5 7 7 2 1 None scenario_store = (Inr (scenario_bb 5 1 None), after_init 7 7 2)
   \<and> evaluate exact_funs (scenario_bb 5 1 None) 3 (after_init 7 7 2)
       = (Inl AssertionError, scenario_bb 5 1 None, after_init 7 7 2)"
proof -
  have "int (len (after_init 6 6 2 ! 5)) \<noteq> get_dimension (scenario_bb 0 1 None)"
    and "int (len (after_init 5 5 2 ! 6)) \<noteq> get_dimension (scenario_bb 1 1 None)"
    and "int (len (after_init 5 5 2 ! 3)) \<noteq> get_dimension (scenario_bb 1 1 None)"
    and "int (len (after_init 7 7 2 ! 3)) \<noteq> get_dimension (scenario_bb 5 1 None)"
    by (simp_all add: scenario_defs get_dimension_def)
  then show ?thesis
    using init_scenario_0 init_scenario_1 init_scenario_5
    by (simp add: evaluate_length_mismatch_fails)
qed

text \<open>
  C6: for every adapter constructed with a fast evaluator \<open>g\<close> and every point \<open>x\<close>
  whose length is the dimension, \<open>evaluate_fast\<close> is the call of \<open>g\<close> on \<open>x\<close>
  itself, whatever \<open>g\<close> returns: the result is not inspected, so a triple whose
  bounds have the wrong signs comes back as it is.
\<close>

theorem evaluate_fast_returns_obj_funct_fast:
  assumes "init dimn lower upper ivars f (Some g) s0 = (Inr self, s1)"
    and "int (len (s ! x)) = dimn"
  shows "evaluate_fast G self x s = G g x (self, s)"
proof -
  have "dimension self = dimn" and "obj_funct_fast self = Some g"
    using assms(1) by (rule init_ok_fields)+
  with assms(2) show ?thesis
    by (simp add: evaluate_fast_def)
qed

theorem evaluate_fast_returns_obj_funct_fast_witness:
  "init 2 0 1 2 0 (Some 0) scenario_store = (Inr (scenario_bb 2 0 (Some 0)), after_init 0 1 2)
   \<and> int (len (after_init 0 1 2 ! 4)) = 2
   \<and> fast_funs 0 = noisy_sum
   \<and> evaluate_fast fast_funs (scenario_bb 2 0 (Some 0)) 4 (after_init 0 1 2)
       = (Inr (1/2, 1/10, - 1/10), scenario_bb 2 0 (Some 0), after_init 0 1 2)
   \<and> \<not> ((1/10 :: real) \<le> 0 \<and> (0 :: real) \<le> - 1/10)"
proof -
  have c: "init 2 0 1 2 0 (Some 0) scenario_store
             = (Inr (scenario_bb 2 0 (Some 0)), after_init 0 1 2)"
    by (rule init_scenario_2)
  have l: "int (len (after_init 0 1 2 ! 4)) = 2"
    by (simp add: scenario_defs)
  have "fast_funs 0 4 (scenario_bb 2 0 (Some 0), after_init 0 1 2)
          = (Inr (1/2, 1/10, - 1/10), scenario_bb 2 0 (Some 0), after_init 0 1 2)"
    by (simp add: fast_funs_def noisy_sum_def scenario_defs)
  with evaluate_fast_returns_obj_funct_fast [OF c l, of fast_funs] c l show ?thesis
    by (simp add: fast_funs_def)
qed

text \<open>
  C2 as stated (an adapter without a fast evaluator answers \<open>evaluate_fast\<close> with
  the capability error for every point, also one of the wrong length) fails: the
  length assertion is the first statement of \<open>evaluate_fast\<close>, so a point of length
  one given to a two-dimensional adapter raises \<^verbatim>\<open>AssertionError\<close>.
\<close>

theorem evaluate_fast_capability_counterexample:
  "init 2 0 1 2 0 None scenario_store = (Inr (scenario_bb 2 0 None), after_init 0 1 2)
   \<and> int (len (after_init 0 1 2 ! 5)) = 1
   \<and> evaluate_fast fast_funs (scenario_bb 2 0 None) 5 (after_init 0 1 2)
       = (Inl AssertionError, scenario_bb 2 0 None, after_init 0 1 2)
   \<and> fst (evaluate_fast fast_funs (scenario_bb 2 0 None) 5 (after_init 0 1 2))
       \<noteq> Inl (NotImplementedError ''evaluate_fast not available'')"
  using init_scenario_2 [of 0 None]
  by (simp add: evaluate_fast_def scenario_defs)

text \<open>
  C2, amended: for every adapter constructed without a fast evaluator,
  \<open>evaluate_fast\<close> on a point whose length is the dimension raises
  \<^verbatim>\<open>NotImplementedError\<close> (capability not available) and not a length error; on a
  point of any other length the length assertion, which is checked first, raises
  \<^verbatim>\<open>AssertionError\<close>. In both cases the state is left as it was.
\<close>

theorem evaluate_fast_without_fast_evaluator:
  assumes "init dimn lower upper ivars f None s0 = (Inr self, s1)"
  shows "evaluate_fast G self x s =
           (if int (len (s ! x)) = dimn
            then (Inl (NotImplementedError ''evaluate_fast not available''), self, s)
            else (Inl AssertionError, self, s))"
proof -
  have "dimension self = dimn" and "obj_funct_fast self = None"
    using assms by (rule init_ok_fields)+
  then show ?thesis
    by (simp add: evaluate_fast_def)
qed

theorem evaluate_fast_without_fast_evaluator_witness:
  "init 2 0 1 2 0 None scenario_store = (Inr (scenario_bb 2 0 None), after_init 0 1 2)
   \<and> evaluate_fast fast_funs (scenario_bb 2 0 None) 3 (after_init 0 1 2)
       = (Inl (NotImplementedError ''evaluate_fast not available''),
          scenario_bb 2 0 None, after_init 0 1 2)
   \<and> evaluate_fast fast_funs (scenario_bb 2 0 None) 5 (after_init 0 1 2)
       = (Inl AssertionError, scenario_bb 2 0 None, after_init 0 1 2)"
proof -
  have c: "init 2 0 1 2 0 None scenario_store = (Inr (scenario_bb 2 0 None), after_init 0 1 2)"
    by (rule init_scenario_2)
  have "int (len (after_init 0 1 2 ! 3)) = 2" and "int (len (after_init 0 1 2 ! 5)) \<noteq> 2"
    by (simp_all add: scenario_defs)
  with c show ?thesis
    by (simp add: evaluate_fast_without_fast_evaluator [OF c])
qed

section \<open>Construction checks and getters\<close>

text \<open>
  C4: a construction in which the lower-bound array or the upper-bound array has a
  length other than the dimension, or the index array is longer than the dimension,
  raises \<^verbatim>\<open>AssertionError\<close> in the constructor itself: no object is returned (so
  there is none to evaluate later) and the store is as before.
\<close>

theorem init_rejects_inconsistent_lengths:
  assumes "int (len (s ! lower)) \<noteq> dimn \<or> int (len (s ! upper)) \<noteq> dimn
           \<or> int (len (s ! ivars)) > dimn"
  shows "init dimn lower upper ivars f ffast s = (Inl AssertionError, s)"
  using assms by (auto simp: init_def)

theorem init_rejects_inconsistent_lengths_witness:
  "init 2 5 1 2 0 (Some 0) scenario_store = (Inl AssertionError, scenario_store)
   \<and> init 2 0 7 2 0 (Some 0) scenario_store = (Inl AssertionError, scenario_store)
   \<and> init 0 6 6 5 0 (Some 0) scenario_store = (Inl AssertionError, scenario_store)"
proof -
  have "int (len (scenario_store ! 5)) \<noteq> 2"
    and "int (len (scenario_store ! 7)) \<noteq> 2"
    and "int (len (scenario_store ! 5)) > 0"
    by (simp_all add: scenario_store_def)
  then show ?thesis
    by (simp add: init_rejects_inconsistent_lengths)
qed

text \<open>
  C7: after a successful construction (from arrays that exist in the caller's
  store), \<open>get_dimension\<close> returns the dimension that was supplied, and the arrays
  that \<open>get_var_lower\<close> and \<open>get_var_upper\<close> refer to both have that length.
\<close>

theorem getters_agree_with_dimension:
  assumes "init dimn lower upper ivars f ffast s = (Inr self, s')"
    and "lower < length s" and "upper < length s" and "ivars < length s"
  shows "get_dimension self = dimn
         \<and> int (len (s' ! get_var_lower self)) = get_dimension self
         \<and> int (len (s' ! get_var_upper self)) = get_dimension self"
proof -
  have s': "s' = s @ [s ! lower, s ! upper, s ! ivars]"
    using assms by (rule init_ok_store)
  have "s' ! var_lower self = s ! lower" and "s' ! var_upper self = s ! upper"
    using init_ok_fields(2,3) [OF assms(1)] by (simp_all add: s' nth_append)
  then show ?thesis
    using init_ok_fields(1) [OF assms(1)] init_ok_checks(1,2) [OF assms(1)]
    by (simp add: get_dimension_def get_var_lower_def get_var_upper_def)
qed

theorem getters_agree_with_dimension_witness:
  "init 2 0 1 2 0 None scenario_store = (Inr (scenario_bb 2 0 None), after_init 0 1 2)
   \<and> get_dimension (scenario_bb 2 0 None) = 2
   \<and> get_var_lower (scenario_bb 2 0 None) = 8
   \<and> get_var_upper (scenario_bb 2 0 None) = 9
   \<and> len (after_init 0 1 2 ! 8) = 2
   \<and> len (after_init 0 1 2 ! 9) = 2"
proof -
  have c: "init 2 0 1 2 0 None scenario_store
             = (Inr (scenario_bb 2 0 None), after_init 0 1 2)"
    by (rule init_scenario_2)
  have v: "0 < length scenario_store" "1 < length scenario_store" "2 < length scenario_store"
    by (simp_all add: scenario_store_def)
  have g: "get_var_lower (scenario_bb 2 0 None) = 8"
    "get_var_upper (scenario_bb 2 0 None) = 9"
    by (simp_all add: get_var_lower_def get_var_upper_def scenario_bb_def)
  from getters_agree_with_dimension [OF c v] c g show ?thesis
    by simp
qed

text \<open>
  C10: the constructor has no check that the dimension is positive. For a dimension
  that is zero or negative, bound arrays of that length and an index array no
  longer than it, construction succeeds and \<open>get_dimension\<close> returns the value
  supplied. (A length is never negative, so the arrays exist for zero only.)
\<close>

theorem init_accepts_nonpositive_dimension:
  assumes "dimn \<le> 0"
    and "int (len (s ! lower)) = dimn" and "int (len (s ! upper)) = dimn"
    and "int (len (s ! ivars)) \<le> dimn"
  shows "\<exists>self s'. init dimn lower upper ivars f ffast s = (Inr self, s')
                   \<and> get_dimension self = dimn"
  using assms by (simp add: init_def np_array_def get_dimension_def)

theorem init_accepts_nonpositive_dimension_witness:
  "init 0 6 6 2 0 None scenario_store = (Inr (scenario_bb 0 0 None), after_init 6 6 2)
   \<and> get_dimension (scenario_bb 0 0 None) = 0"
proof -
  have "int (len (scenario_store ! 6)) = 0" and "int (len (scenario_store ! 2)) \<le> 0"
    by (simp_all add: scenario_store_def)
  with init_accepts_nonpositive_dimension [of 0 scenario_store 6 6 2 0 None]
  obtain self s' where
    "init 0 6 6 2 0 None scenario_store = (Inr self, s')" and "get_dimension self = 0"
    by auto
  then show ?thesis
    by (simp add: init_scenario_0)
qed

text \<open>
  C9: the constructor stores copies made by \<^verbatim>\<open>np.array\<close>. Right after a
  construction from arrays of the caller's store, the arrays the three getters
  refer to hold the elements of the arrays supplied; they are new cells, distinct
  from every array that existed before; and when the caller afterwards overwrites
  its three original arrays with anything, the getters' arrays still hold the
  elements supplied at construction.
\<close>

theorem init_stores_independent_copies:
  assumes "init dimn lower upper ivars f ffast s = (Inr self, s')"
    and "lower < length s" and "upper < length s" and "ivars < length s"
  shows "s' ! get_var_lower self = s ! lower
         \<and> s' ! get_var_upper self = s ! upper
         \<and> s' ! get_integer_vars self = s ! ivars
         \<and> length s \<le> get_var_lower self \<and> length s \<le> get_var_upper self
         \<and> length s \<le> get_integer_vars self
         \<and> s'[lower := v1, upper := v2, ivars := v3] ! get_var_lower self = s ! lower
         \<and> s'[lower := v1, upper := v2, ivars := v3] ! get_var_upper self = s ! upper
         \<and> s'[lower := v1, upper := v2, ivars := v3] ! get_integer_vars self = s ! ivars"
proof -
  have s': "s' = s @ [s ! lower, s ! upper, s ! ivars]"
    using assms by (rule init_ok_store)
  have a: "get_var_lower self = length s" "get_var_upper self = Suc (length s)"
    "get_integer_vars self = Suc (Suc (length s))"
    using init_ok_fields(2,3,4) [OF assms(1)]
    by (simp_all add: get_var_lower_def get_var_upper_def get_integer_vars_def)
  have copies: "s' ! length s = s ! lower" "s' ! Suc (length s) = s ! upper"
    "s' ! Suc (Suc (length s)) = s ! ivars"
    by (simp_all add: s' nth_append)
  have kept: "s'[lower := v1, upper := v2, ivars := v3] ! k = s' ! k" if "length s \<le> k" for k
    using that assms(2-4) by simp
  show ?thesis
    by (simp add: a copies kept)
qed

theorem init_stores_independent_copies_witness:
  "init 2 0 1 2 0 None scenario_store = (Inr (scenario_bb 2 0 None), after_init 0 1 2)
   \<and> (after_init 0 1 2) [0 := Floats [5, 5], 1 := Floats [], 2 := Ints [0, 1]]
        ! get_var_lower (scenario_bb 2 0 None) = Floats [-1, -1]
   \<and> (after_init 0 1 2) [0 := Floats [5, 5], 1 := Floats [], 2 := Ints [0, 1]]
        ! get_var_upper (scenario_bb 2 0 None) = Floats [1, 1]
   \<and> (after_init 0 1 2) [0 := Floats [5, 5], 1 := Floats [], 2 := Ints [0, 1]]
        ! get_integer_vars (scenario_bb 2 0 None) = Ints []
   \<and> (after_init 0 1 2) [0 := Floats [5, 5], 1 := Floats [], 2 := Ints [0, 1]] ! 0 = Floats [5, 5]"
proof -
  have c: "init 2 0 1 2 0 None scenario_store
             = (Inr (scenario_bb 2 0 None), after_init 0 1 2)"
    by (rule init_scenario_2)
  have v: "0 < length scenario_store" "1 < length scenario_store" "2 < length scenario_store"
    by (simp_all add: scenario_store_def)
  have o: "scenario_store ! 0 = Floats [-1, -1]" "scenario_store ! 1 = Floats [1, 1]"
    "scenario_store ! 2 = Ints []"
    by (simp_all add: scenario_store_def)
  have m: "(after_init 0 1 2) [0 := Floats [5, 5], 1 := Floats [], 2 := Ints [0, 1]] ! 0
             = Floats [5, 5]"
    by (simp add: scenario_defs)
  from init_stores_independent_copies
         [OF c v, of "Floats [5, 5]" "Floats []" "Ints [0, 1]"] c o m
  show ?thesis
    by simp
qed

section \<open>What calls do to the adapter\<close>

lemma snd_call_Evaluate: "snd (call F G (Evaluate x) (self, s)) = snd (evaluate F self x s)"
  by (simp add: split_beta)

lemma snd_call_EvaluateFast:
  "snd (call F G (EvaluateFast x) (self, s)) = snd (evaluate_fast G self x s)"
  by (simp add: split_beta)

text \<open>
  The adapter's own code writes nothing: whatever the evaluators it invokes
  preserve is preserved by every call, and so by every sequence of calls.
\<close>

lemma call_invariant:
  assumes "\<And>x \<tau>. P \<tau> \<Longrightarrow> P (snd (F (obj_funct (fst \<tau>)) x \<tau>))"
    and "\<And>g x \<tau>. obj_funct_fast (fst \<tau>) = Some g \<Longrightarrow> P \<tau> \<Longrightarrow> P (snd (G g x \<tau>))"
    and "P \<sigma>"
  shows "P (snd (call F G q \<sigma>))"
proof -
  obtain self s where \<sigma>: "\<sigma> = (self, s)"
    by (cases \<sigma>)
  show ?thesis
  proof (cases q)
    case (Evaluate x)
    have "P (snd (evaluate F self x s))"
      using assms(1) [of "(self, s)" x] assms(3)
      by (simp add: evaluate_def \<sigma>)
    then show ?thesis
      by (simp only: Evaluate \<sigma> snd_call_Evaluate)
  next
    case (EvaluateFast x)
    have "P (snd (evaluate_fast G self x s))"
      using assms(2) [of "(self, s)" _ x] assms(3)
      by (simp add: evaluate_fast_def \<sigma> split: option.splits)
    then show ?thesis
      by (simp only: EvaluateFast \<sigma> snd_call_EvaluateFast)
  qed (use assms(3) in \<open>simp_all add: \<sigma>\<close>)
qed

lemma run_invariant:
  assumes "\<And>x \<tau>. P \<tau> \<Longrightarrow> P (snd (F (obj_funct (fst \<tau>)) x \<tau>))"
    and "\<And>g x \<tau>. obj_funct_fast (fst \<tau>) = Some g \<Longrightarrow> P \<tau> \<Longrightarrow> P (snd (G g x \<tau>))"
    and "P \<sigma>"
  shows "P (snd (run F G qs \<sigma>))"
  using assms(3)
proof (induction qs arbitrary: \<sigma>)
  case Nil
  then show ?case by simp
next
  case (Cons q qs)
  have "P (snd (call F G q \<sigma>))"
    using assms(1,2) Cons.prems by (rule call_invariant)
  then have "P (snd (run F G qs (snd (call F G q \<sigma>))))"
    by (rule Cons.IH)
  then show ?case
    by (simp add: split_beta)
qed

lemma sphere_state: "snd (sphere x \<tau>) = \<tau>"
  by (simp add: sphere_def split: array.splits list.splits)

lemma noisy_sum_state: "snd (noisy_sum x \<tau>) = \<tau>"
  by (simp add: noisy_sum_def split: array.splits list.splits)

lemma run_scenario:
  "run exact_funs fast_funs
      [GetDimension, GetVarLower, GetVarUpper, GetIntegerVars, Evaluate 3, Evaluate 5,
       EvaluateFast 4, EvaluateFast 5, HasEvaluateFast]
      (scenario_bb 2 0 (Some 0), after_init 0 1 2)
   = ([Inr (RInt 2), Inr (RRef 8), Inr (RRef 9), Inr (RRef 10), Inr (RExact (1/2)),
       Inl AssertionError, Inr (RFast (1/2, 1/10, - 1/10)), Inl AssertionError,
       Inr (RBool True)],
      scenario_bb 2 0 (Some 0), after_init 0 1 2)"
  by (simp add: get_dimension_def get_var_lower_def get_var_upper_def get_integer_vars_def
      evaluate_def evaluate_fast_def has_evaluate_fast_def exact_funs_def fast_funs_def
      sphere_def noisy_sum_def scenario_defs)

text \<open>
  The same client with \<open>meddler\<close> as exact evaluator: the replies of
  \<open>get_dimension\<close> and \<open>has_evaluate_fast\<close> differ before and after one
  \<open>evaluate\<close>.
\<close>

lemma run_scenario_meddler:
  "run exact_funs fast_funs [GetDimension, HasEvaluateFast, Evaluate 3, GetDimension, HasEvaluateFast]
      (scenario_bb 2 2 (Some 0), after_init 0 1 2)
   = ([Inr (RInt 2), Inr (RBool True), Inr (RExact 0), Inr (RInt 7), Inr (RBool False)],
      scenario_bb 7 2 None, after_init 0 1 2)"
  by (simp add: get_dimension_def evaluate_def has_evaluate_fast_def exact_funs_def
      meddler_def scenario_defs)

text \<open>
  C8 as stated (no sequence of calls modifies a stored field of the adapter) fails:
  \<open>evaluate\<close> runs the user's evaluator, and the attributes are plain public
  attributes that this code may assign. With \<open>meddler\<close> as exact evaluator, one
  successful \<open>evaluate\<close> on a two-dimensional adapter that has a fast evaluator
  leaves the dimension at seven and the fast evaluator at \<^verbatim>\<open>None\<close>.
\<close>

theorem calls_modify_adapter_counterexample:
  "init 2 0 1 2 2 (Some 0) scenario_store = (Inr (scenario_bb 2 2 (Some 0)), after_init 0 1 2)
   \<and> exact_funs 2 = meddler
   \<and> call exact_funs fast_funs (Evaluate 3) (scenario_bb 2 2 (Some 0), after_init 0 1 2)
       = (Inr (RExact 0), scenario_bb 7 2 None, after_init 0 1 2)
   \<and> scenario_bb 7 2 None \<noteq> scenario_bb 2 2 (Some 0)
   \<and> get_dimension (scenario_bb 2 2 (Some 0)) = 2
   \<and> get_dimension (scenario_bb 7 2 None) = 7"
  using init_scenario_2 [of 2 "Some 0"]
  by (simp add: get_dimension_def evaluate_def exact_funs_def meddler_def scenario_defs)

text \<open>
  C8, amended: for every adapter and every sequence of calls of its seven methods,
  failing calls included, the adapter's own code modifies nothing. The four
  getters and \<open>has_evaluate_fast\<close> leave the state (the object's attributes and
  every array) exactly as it was, and so do \<open>evaluate\<close> and \<open>evaluate_fast\<close> when
  they fail on the length assertion and \<open>evaluate_fast\<close> when there is no fast
  evaluator. The only changes are those made by a user evaluator that \<open>evaluate\<close>
  or \<open>evaluate_fast\<close> invokes: every property of the state that the invoked
  evaluators preserve still holds after the whole sequence. In particular, when
  the evaluators leave the state alone, the state after the calls is the state
  before them.
\<close>

theorem adapter_code_modifies_nothing:
  "snd (call F G GetDimension (self, s)) = (self, s)
   \<and> snd (call F G GetVarLower (self, s)) = (self, s)
   \<and> snd (call F G GetVarUpper (self, s)) = (self, s)
   \<and> snd (call F G GetIntegerVars (self, s)) = (self, s)
   \<and> snd (call F G HasEvaluateFast (self, s)) = (self, s)
   \<and> (int (len (s ! x)) \<noteq> get_dimension self
        \<longrightarrow> snd (call F G (Evaluate x) (self, s)) = (self, s)
            \<and> snd (call F G (EvaluateFast x) (self, s)) = (self, s))
   \<and> (\<not> has_evaluate_fast self \<longrightarrow> snd (call F G (EvaluateFast x) (self, s)) = (self, s))
   \<and> ((\<forall>x \<tau>. P \<tau> \<longrightarrow> P (snd (F (obj_funct (fst \<tau>)) x \<tau>)))
         \<and> (\<forall>g x \<tau>. obj_funct_fast (fst \<tau>) = Some g \<and> P \<tau> \<longrightarrow> P (snd (G g x \<tau>)))
         \<and> P (self, s)
        \<longrightarrow> P (snd (run F G qs (self, s))))"
proof -
  have getters:
    "snd (call F G GetDimension (self, s)) = (self, s)"
    "snd (call F G GetVarLower (self, s)) = (self, s)"
    "snd (call F G GetVarUpper (self, s)) = (self, s)"
    "snd (call F G GetIntegerVars (self, s)) = (self, s)"
    "snd (call F G HasEvaluateFast (self, s)) = (self, s)"
    by simp_all
  have mismatch:
    "snd (call F G (Evaluate x) (self, s)) = (self, s)
     \<and> snd (call F G (EvaluateFast x) (self, s)) = (self, s)"
    if "int (len (s ! x)) \<noteq> get_dimension self"
    using that
    by (simp add: snd_call_Evaluate snd_call_EvaluateFast evaluate_def evaluate_fast_def
        get_dimension_def)
  have absent: "snd (call F G (EvaluateFast x) (self, s)) = (self, s)"
    if "\<not> has_evaluate_fast self"
    using that
    by (simp add: snd_call_EvaluateFast evaluate_fast_def has_evaluate_fast_def)
  have preserved: "P (snd (run F G qs (self, s)))"
    if h: "(\<forall>x \<tau>. P \<tau> \<longrightarrow> P (snd (F (obj_funct (fst \<tau>)) x \<tau>)))
           \<and> (\<forall>g x \<tau>. obj_funct_fast (fst \<tau>) = Some g \<and> P \<tau> \<longrightarrow> P (snd (G g x \<tau>)))
           \<and> P (self, s)"
  proof (rule run_invariant)
    show "P (self, s)" using h by simp
  next
    fix x \<tau> assume "P \<tau>"
    with h show "P (snd (F (obj_funct (fst \<tau>)) x \<tau>))" by blast
  next
    fix g x \<tau> assume "obj_funct_fast (fst \<tau>) = Some g" and "P \<tau>"
    with h show "P (snd (G g x \<tau>))" by blast
  qed
  from getters mismatch absent preserved show ?thesis
    by blast
qed

theorem adapter_code_modifies_nothing_witness:
  "snd (run exact_funs fast_funs
      [GetDimension, GetVarLower, GetVarUpper, GetIntegerVars, Evaluate 3, Evaluate 5,
       EvaluateFast 4, EvaluateFast 5, HasEvaluateFast]
      (scenario_bb 2 0 (Some 0), after_init 0 1 2))
     = (scenario_bb 2 0 (Some 0), after_init 0 1 2)
   \<and> snd (call exact_funs fast_funs (Evaluate 5) (scenario_bb 2 0 (Some 0), after_init 0 1 2))
     = (scenario_bb 2 0 (Some 0), after_init 0 1 2)
   \<and> snd (call exact_funs fast_funs (EvaluateFast 3) (scenario_bb 2 2 None, after_init 0 1 2))
     = (scenario_bb 2 2 None, after_init 0 1 2)
   \<and> fst (run exact_funs fast_funs
      [GetDimension, GetVarLower, GetVarUpper, GetIntegerVars, Evaluate 3, Evaluate 5,
       EvaluateFast 4, EvaluateFast 5, HasEvaluateFast]
      (scenario_bb 2 0 (Some 0), after_init 0 1 2))
     = [Inr (RInt 2), Inr (RRef 8), Inr (RRef 9), Inr (RRef 10), Inr (RExact (1/2)),
        Inl AssertionError, Inr (RFast (1/2, 1/10, - 1/10)), Inl AssertionError,
        Inr (RBool True)]"
  (is "snd (run _ _ ?qs (?bb, ?st)) = _ \<and> _ \<and> _ \<and> _")
proof -
  have exact: "\<forall>x \<tau>. \<tau> = (?bb, ?st)
                 \<longrightarrow> snd (exact_funs (obj_funct (fst \<tau>)) x \<tau>) = (?bb, ?st)"
    by (simp add: scenario_bb_def exact_funs_def sphere_state)
  have fast: "\<forall>g x \<tau>. obj_funct_fast (fst \<tau>) = Some g \<and> \<tau> = (?bb, ?st)
                 \<longrightarrow> snd (fast_funs g x \<tau>) = (?bb, ?st)"
    by (simp add: fast_funs_def noisy_sum_state)
  have short: "int (len (?st ! 5)) \<noteq> get_dimension ?bb"
    by (simp add: scenario_defs get_dimension_def)
  have none: "\<not> has_evaluate_fast (scenario_bb 2 2 None)"
    by (simp add: has_evaluate_fast_def scenario_bb_def)
  have "snd (run exact_funs fast_funs ?qs (?bb, ?st)) = (?bb, ?st)"
    and "snd (call exact_funs fast_funs (Evaluate 5) (?bb, ?st)) = (?bb, ?st)"
    using adapter_code_modifies_nothing
            [where F = exact_funs and G = fast_funs and self = ?bb and s = ?st and x = 5
               and P = "\<lambda>\<tau>. \<tau> = (?bb, ?st)" and qs = ?qs]
          exact fast short
    by blast+
  moreover have "snd (call exact_funs fast_funs (EvaluateFast 3) (scenario_bb 2 2 None, ?st))
                   = (scenario_bb 2 2 None, ?st)"
    using adapter_code_modifies_nothing
            [where F = exact_funs and G = fast_funs and self = "scenario_bb 2 2 None"
               and s = ?st and x = 3]
          none
    by blast
  moreover have "fst (run exact_funs fast_funs ?qs (?bb, ?st))
                   = [Inr (RInt 2), Inr (RRef 8), Inr (RRef 9), Inr (RRef 10),
                      Inr (RExact (1/2)), Inl AssertionError, Inr (RFast (1/2, 1/10, - 1/10)),
                      Inl AssertionError, Inr (RBool True)]"
    by (simp only: run_scenario fst_conv)
  ultimately show ?thesis
    by (simp only: simp_thms)
qed

text \<open>
  C3 as stated (the answer of \<open>has_evaluate_fast\<close> is the same on every call for
  the lifetime of the object) fails for the same reason: an adapter constructed
  with a fast evaluator answers true, and after one \<open>evaluate\<close> whose evaluator
  assigns \<^verbatim>\<open>None\<close> to \<^verbatim>\<open>obj_funct_fast\<close> it answers false.
\<close>

theorem has_evaluate_fast_changes_counterexample:
  "init 2 0 1 2 2 (Some 0) scenario_store = (Inr (scenario_bb 2 2 (Some 0)), after_init 0 1 2)
   \<and> exact_funs 2 = meddler
   \<and> fst (run exact_funs fast_funs [HasEvaluateFast, Evaluate 3, HasEvaluateFast]
            (scenario_bb 2 2 (Some 0), after_init 0 1 2))
       = [Inr (RBool True), Inr (RExact 0), Inr (RBool False)]"
  using init_scenario_2 [of 2 "Some 0"]
  by (simp add: evaluate_def has_evaluate_fast_def exact_funs_def meddler_def scenario_defs)

text \<open>
  C3, amended: for an adapter constructed with \<open>ffast\<close> as its (optional) fast
  evaluator, \<open>has_evaluate_fast\<close> is the boolean "\<open>ffast\<close> is not \<^verbatim>\<open>None\<close>"; the
  call reads one attribute and changes neither the object nor any array; and the
  answer is the same after any sequence of calls on the object, provided the two
  evaluators supplied at construction never reassign the attributes
  \<^verbatim>\<open>obj_funct\<close> and \<^verbatim>\<open>obj_funct_fast\<close>.
\<close>

theorem has_evaluate_fast_iff_supplied:
  assumes "init dimn lower upper ivars f ffast s0 = (Inr self, s1)"
    and "\<forall>x \<tau>. obj_funct (fst (snd (F f x \<tau>))) = obj_funct (fst \<tau>)
               \<and> obj_funct_fast (fst (snd (F f x \<tau>))) = obj_funct_fast (fst \<tau>)"
    and "\<forall>g x \<tau>. ffast = Some g
               \<longrightarrow> obj_funct (fst (snd (G g x \<tau>))) = obj_funct (fst \<tau>)
                   \<and> obj_funct_fast (fst (snd (G g x \<tau>))) = obj_funct_fast (fst \<tau>)"
    and "run F G qs (self, s) = (rs, self', s')"
  shows "has_evaluate_fast self = (ffast \<noteq> None)
         \<and> call F G HasEvaluateFast (self, s) = (Inr (RBool (ffast \<noteq> None)), self, s)
         \<and> has_evaluate_fast self' = (ffast \<noteq> None)
         \<and> call F G HasEvaluateFast (self', s') = (Inr (RBool (ffast \<noteq> None)), self', s')"
proof -
  let ?P = "\<lambda>\<tau> :: state. obj_funct (fst \<tau>) = f \<and> obj_funct_fast (fst \<tau>) = ffast"
  have start: "?P (self, s)"
    using init_ok_fields(5,6) [OF assms(1)] by simp
  have "?P (snd (run F G qs (self, s)))"
  proof (rule run_invariant [where P = ?P])
    show "?P (self, s)" by (rule start)
  next
    fix x \<tau> assume "?P \<tau>"
    with assms(2) show "?P (snd (F (obj_funct (fst \<tau>)) x \<tau>))" by metis
  next
    fix g x \<tau> assume "obj_funct_fast (fst \<tau>) = Some g" and "?P \<tau>"
    with assms(3) show "?P (snd (G g x \<tau>))" by metis
  qed
  with assms(4) have "obj_funct_fast self' = ffast"
    by simp
  with start show ?thesis
    by (simp add: has_evaluate_fast_def)
qed

theorem has_evaluate_fast_iff_supplied_witness:
  "init 2 0 1 2 0 (Some 0) scenario_store = (Inr (scenario_bb 2 0 (Some 0)), after_init 0 1 2)
   \<and> has_evaluate_fast (scenario_bb 2 0 (Some 0)) = True
   \<and> call exact_funs fast_funs HasEvaluateFast (scenario_bb 2 0 (Some 0), after_init 0 1 2)
       = (Inr (RBool True), scenario_bb 2 0 (Some 0), after_init 0 1 2)
   \<and> init 2 0 1 2 0 None scenario_store = (Inr (scenario_bb 2 0 None), after_init 0 1 2)
   \<and> has_evaluate_fast (scenario_bb 2 0 None) = False
   \<and> call exact_funs fast_funs HasEvaluateFast (scenario_bb 2 0 None, after_init 0 1 2)
       = (Inr (RBool False), scenario_bb 2 0 None, after_init 0 1 2)"
proof -
  have c: "init 2 0 1 2 0 (Some 0) scenario_store
             = (Inr (scenario_bb 2 0 (Some 0)), after_init 0 1 2)"
    and c': "init 2 0 1 2 0 None scenario_store = (Inr (scenario_bb 2 0 None), after_init 0 1 2)"
    by (rule init_scenario_2)+
  have exact: "\<forall>x \<tau>. obj_funct (fst (snd (exact_funs 0 x \<tau>))) = obj_funct (fst \<tau>)
                 \<and> obj_funct_fast (fst (snd (exact_funs 0 x \<tau>))) = obj_funct_fast (fst \<tau>)"
    by (simp add: exact_funs_def sphere_state)
  have fast: "\<forall>g x \<tau>. ffast = Some g
                 \<longrightarrow> obj_funct (fst (snd (fast_funs g x \<tau>))) = obj_funct (fst \<tau>)
                     \<and> obj_funct_fast (fst (snd (fast_funs g x \<tau>))) = obj_funct_fast (fst \<tau>)"
    for ffast :: "fref option"
    by (simp add: fast_funs_def noisy_sum_state)
  have r': "run exact_funs fast_funs [] (scenario_bb 2 0 None, after_init 0 1 2)
              = ([], scenario_bb 2 0 None, after_init 0 1 2)"
    by simp
  from has_evaluate_fast_iff_supplied [OF c exact fast run_scenario]
    has_evaluate_fast_iff_supplied [OF c' exact fast r'] c c'
  show ?thesis
    by simp
qed

end
